theory Spec2Isabelle
  imports Complex_Main "HOL-Library.Log_Nat"
begin

section \<open>Values exchanged with the collaborators\<close>

text \<open>
  The hooks of \<^verbatim>\<open>useTransferToL1.js\<close> own no data structure: they call their
  collaborators (logger, tracking, progress, listener, bridge API) in an order fixed
  by the control flow. The model records every such call as an effect, in program order,
  and the claims are properties of the resulting traces.

  Addresses, hashes, symbols and names are JavaScript strings. Amounts are JavaScript
  numbers that the hooks only pass on; their type is a parameter \<open>'n\<close>.
  An account that a wallet does not provide is \<^verbatim>\<open>undefined\<close>: \<open>None\<close>.

  The synchronous collaborators return normally: the tracking calls are fire-and-forget,
  the progress descriptors are pure functions, and the logger, the transfer handlers and
  the contract accessors do not throw. What can fail is named in the model: a promise
  that rejects (with any value) or never settles, a callback that reports an error, the
  destructuring of a token that is \<^verbatim>\<open>undefined\<close>, and the reading of
  \<^verbatim>\<open>.message\<close> from a caught value that is \<^verbatim>\<open>undefined\<close> or \<^verbatim>\<open>null\<close>.
\<close>

type_synonym address = string
type_synonym hash = string

text \<open>An \<^verbatim>\<open>Error\<close> object, of which the hooks read \<^verbatim>\<open>.message\<close>.\<close>

datatype js_error = JsError (message: string)

text \<open>
  A thrown or rejected value can be any JavaScript value. The hooks read nothing of it
  but \<^verbatim>\<open>.message\<close>, so three kinds of value are told apart: \<^verbatim>\<open>undefined\<close> and
  \<^verbatim>\<open>null\<close>, of which reading a property throws, and an object. The error argument
  of a callback is tested for truthiness only: there \<open>None\<close> is a falsy argument
  and \<open>Some err\<close> an \<^verbatim>\<open>Error\<close> object.
\<close>

datatype js_value = JsUndefined | JsNull | JsObject js_error

text \<open>The two \<^verbatim>\<open>TypeError\<close>s that the hooks can raise themselves.\<close>

definition TypeError_destructure :: js_error where
  "TypeError_destructure = JsError ''TypeError: Cannot destructure property of undefined''"

definition TypeError_read_property :: js_error where
  "TypeError_read_property = JsError ''TypeError: Cannot read properties of undefined''"

text \<open>
  What \<^verbatim>\<open>await p\<close> observes of a promise: it resolves, it rejects, or it never
  settles (no timeout is imposed on the wallet or on the chain).
\<close>

datatype 'a promise = Resolves 'a | Rejects js_value | Never

text \<open>
  The enumerations of \<^verbatim>\<open>../enums\<close>. The hooks name three steps, one action type,
  one transaction status and one transfer error.
\<close>

datatype TransferStep = CONFIRM_TX | INITIATE_WITHDRAW | WITHDRAW

datatype ActionType = TRANSFER_TO_L1

datatype TransactionStatus = RECEIVED

text \<open>
  Modelled from the spec: the enumeration \<^verbatim>\<open>TransferError\<close> is imported from
  \<^verbatim>\<open>../enums\<close>, a file that is not among the sources. \<open>TRANSACTION_ERROR\<close> is the
  member the hooks use; the other three are the error kinds that the specification's
  section on error handling lists beside it.
\<close>

datatype TransferError = TRANSACTION_ERROR | MISSING_ACCOUNT | UNKNOWN_TOKEN | LISTENER_ERROR

text \<open>
  Modelled from the spec: the step list \<^verbatim>\<open>TransferToL1Steps\<close> is imported from
  \<^verbatim>\<open>../enums\<close>, a file that is not among the sources. The specification describes a
  step as a value from an ordered step list specific to the flow variant; the initiation
  flow confirms the transaction, then initiates the withdrawal.
\<close>

definition TransferToL1Steps :: "TransferStep list" where
  "TransferToL1Steps = [CONFIRM_TX, INITIATE_WITHDRAW]"

text \<open>
  Modelled from the spec: the step list \<^verbatim>\<open>CompleteTransferToL1Steps\<close> is imported
  from \<^verbatim>\<open>../enums\<close>, a file that is not among the sources. The completion flow
  confirms the transaction, then withdraws.
\<close>

definition CompleteTransferToL1Steps :: "TransferStep list" where
  "CompleteTransferToL1Steps = [CONFIRM_TX, WITHDRAW]"

text \<open>
  Modelled from the spec: \<^verbatim>\<open>stepOf\<close> is imported from \<^verbatim>\<open>../enums\<close>, a file that
  is not among the sources. The specification ties a step to its flow variant
  positionally: \<open>stepOf\<close> is the position of the step in the list (\<open>-1\<close> when
  absent, as \<^verbatim>\<open>indexOf\<close> gives).
\<close>

fun indexOf :: "'a list \<Rightarrow> 'a \<Rightarrow> int" where
  "indexOf [] x = -1"
| "indexOf (y # ys) x =
     (if y = x then 0 else (let i = indexOf ys x in if i < 0 then -1 else i + 1))"

definition stepOf :: "TransferStep \<Rightarrow> TransferStep list \<Rightarrow> int" where
  "stepOf step steps = indexOf steps step"

text \<open>
  A token as \<^verbatim>\<open>useSelectedToken\<close> and \<^verbatim>\<open>getL1Token\<close> return it, destructured by the
  hooks into these four fields.
\<close>

record token =
  decimals :: nat
  bridgeAddress :: address
  name :: string
  symbol :: string

text \<open>The handle that \<^verbatim>\<open>getTokenBridgeContract(bridgeAddress)\<close> returns.\<close>

datatype contract = Contract address

text \<open>
  The transfer record handed to \<^verbatim>\<open>handleData\<close>. The initiation hook builds it
  without \<^verbatim>\<open>l1hash\<close>; the completion hook receives it as its argument and adds
  \<^verbatim>\<open>l1hash\<close> by object spread.
\<close>

record 'n transfer =
  t_type :: ActionType
  t_sender :: "address option"
  t_recipient :: "address option"
  t_name :: string
  t_symbol :: string
  t_amount :: 'n
  t_l2hash :: hash
  t_l1hash :: "hash option"

text \<open>
  The descriptors of \<^verbatim>\<open>useTransferProgress\<close>: pure functions of their arguments,
  kept as the arguments they were built from.
\<close>

datatype 'n progress =
    Progress_waitForConfirm string int
  | Progress_initiateWithdraw 'n string int
  | Progress_withdraw 'n string int
  | Progress_error TransferError js_value

text \<open>
  The payload of \<^verbatim>\<open>trackInitiated\<close>: \<^verbatim>\<open>{from_address, to_address, amount, symbol}\<close>
  in the initiation hook, \<^verbatim>\<open>{to_address, l2hash, amount, symbol}\<close> in the completion
  hook.
\<close>

datatype 'n initiated =
    Initiated_TransferToL1 "address option" "address option" 'n string
  | Initiated_CompleteTransferToL1 "address option" hash 'n string

text \<open>
  One constructor for each collaborator call of the two hooks. \<open>Log\<close> keeps the
  message of \<^verbatim>\<open>logger.log\<close>, \<open>LogError\<close> the two arguments of
  \<^verbatim>\<open>logger.error\<close> (the first is \<^verbatim>\<open>undefined\<close>, \<open>None\<close>, when optional
  chaining finds no object). The two chain writes carry
  \<^verbatim>\<open>{recipient, contract, amount, decimals}\<close>; the emitter that \<^verbatim>\<open>withdraw\<close>
  also receives is the callback \<^verbatim>\<open>onTransactionHash\<close> of the same run.
\<close>

datatype 'n effect =
    Log string
  | LogError "string option" js_value
  | HandleProgress "'n progress"
  | HandleData "'n transfer"
  | HandleError "'n progress"
  | TrackInitiated "'n initiated"
  | TrackSuccess hash
  | TrackError js_value
  | AddListener
  | RemoveListener
  | CallInitiateWithdraw "address option" contract 'n nat
  | CallWithdraw "address option" contract 'n nat
  | WaitForTransaction hash TransactionStatus

section \<open>Sequencing, exceptions and suspension\<close>

text \<open>
  A block of statements yields the effects it performed and how it ended: it ran to its
  end with a value, it threw, or it is suspended forever on a promise that never settles.
\<close>

datatype 'a completion = Returned 'a | Thrown js_value | Suspended

type_synonym ('n, 'a) block = "'n effect list \<times> 'a completion"

definition emit :: "'n effect \<Rightarrow> ('n, unit) block" where
  "emit e = ([e], Returned ())"

definition and_then :: "('n, 'a) block \<Rightarrow> ('a \<Rightarrow> ('n, 'b) block) \<Rightarrow> ('n, 'b) block" where
  "and_then m f =
     (case m of
        (tr, Returned a) \<Rightarrow> (case f a of (tr', r) \<Rightarrow> (tr @ tr', r))
      | (tr, Thrown ex) \<Rightarrow> (tr, Thrown ex)
      | (tr, Suspended) \<Rightarrow> (tr, Suspended))"

definition await :: "'a promise \<Rightarrow> ('n, 'a) block" where
  "await p =
     (case p of
        Resolves a \<Rightarrow> ([], Returned a)
      | Rejects ex \<Rightarrow> ([], Thrown ex)
      | Never \<Rightarrow> ([], Suspended))"

definition try_catch :: "('n, 'a) block \<Rightarrow> (js_value \<Rightarrow> ('n, 'a) block) \<Rightarrow> ('n, 'a) block" where
  "try_catch m handler =
     (case m of
        (tr, Thrown ex) \<Rightarrow> (case handler ex of (tr', r) \<Rightarrow> (tr @ tr', r))
      | (tr, Returned a) \<Rightarrow> (tr, Returned a)
      | (tr, Suspended) \<Rightarrow> (tr, Suspended))"

text \<open>
  Destructuring \<^verbatim>\<open>const {a, b} = obj\<close> throws a \<^verbatim>\<open>TypeError\<close> when \<^verbatim>\<open>obj\<close> is
  \<^verbatim>\<open>undefined\<close>.
\<close>

definition destructure :: "'a option \<Rightarrow> ('n, 'a) block" where
  "destructure obj =
     (case obj of
        None \<Rightarrow> ([], Thrown (JsObject TypeError_destructure))
      | Some a \<Rightarrow> ([], Returned a))"

text \<open>
  The property access \<^verbatim>\<open>ex.message\<close> throws a \<^verbatim>\<open>TypeError\<close> when \<^verbatim>\<open>ex\<close> is
  \<^verbatim>\<open>undefined\<close> or \<^verbatim>\<open>null\<close>; the optional chain \<^verbatim>\<open>error?.message\<close> is then
  \<^verbatim>\<open>undefined\<close>.
\<close>

definition read_message :: "js_value \<Rightarrow> ('n, string) block" where
  "read_message ex =
     (case ex of
        JsObject err \<Rightarrow> ([], Returned (message err))
      | JsUndefined \<Rightarrow> ([], Thrown (JsObject TypeError_read_property))
      | JsNull \<Rightarrow> ([], Thrown (JsObject TypeError_read_property)))"

definition optional_message :: "js_value \<Rightarrow> string option" where
  "optional_message error =
     (case error of
        JsObject err \<Rightarrow> Some (message err)
      | JsUndefined \<Rightarrow> None
      | JsNull \<Rightarrow> None)"

section \<open>The environment of the hooks\<close>

text \<open>
  What the two hooks close over: the accounts of the two wallets, the names of the two
  network configurations, the selected token (\<^verbatim>\<open>undefined\<close> when none is
  selected), the token registry \<^verbatim>\<open>getL1Token\<close> (a lookup by symbol,
  \<^verbatim>\<open>undefined\<close> for a symbol it does not know), the contract
  accessors, and the behaviour of the asynchronous calls of the initiation hook:
  \<^verbatim>\<open>initiateWithdraw\<close> (resolving to the transaction hash) and
  \<^verbatim>\<open>waitForTransaction\<close>.
\<close>

record 'n env =
  l1Account :: "address option"
  l2Account :: "address option"
  l1Config_name :: string
  l2Config_name :: string
  selectedToken :: "token option"
  getL1Token :: "string \<Rightarrow> token option"
  getTokenBridgeContract :: "address \<Rightarrow> contract"
  getL1TokenBridgeContract :: "address \<Rightarrow> contract"
  initiateWithdraw :: "address option \<Rightarrow> contract \<Rightarrow> 'n \<Rightarrow> nat \<Rightarrow> hash promise"
  waitForTransaction :: "hash \<Rightarrow> TransactionStatus \<Rightarrow> unit promise"

section \<open>The initiation hook \<^verbatim>\<open>useTransferToL1\<close>\<close>

definition sendInitiateWithdraw :: "'n env \<Rightarrow> token \<Rightarrow> 'n \<Rightarrow> ('n, hash promise) block" where
  "sendInitiateWithdraw env tok amount =
     and_then
       (emit (TrackInitiated
          (Initiated_TransferToL1 (l2Account env) (l1Account env) amount (symbol tok))))
       (\<lambda>_. let bridgeContract = getTokenBridgeContract env (bridgeAddress tok) in
          and_then
            (emit (CallInitiateWithdraw (l1Account env) bridgeContract amount (decimals tok)))
            (\<lambda>_. ([], Returned
               (initiateWithdraw env (l1Account env) bridgeContract amount (decimals tok)))))"

text \<open>The \<^verbatim>\<open>try\<close> block, for the token \<open>tok\<close> that line 36 has destructured.\<close>

definition transferToL1_try :: "'n env \<Rightarrow> token \<Rightarrow> 'n \<Rightarrow> ('n, unit) block" where
  "transferToL1_try env tok amount =
     and_then (emit (Log ''TransferToL1 called'')) (\<lambda>_.
     and_then (emit (HandleProgress
                 (Progress_waitForConfirm (l2Config_name env)
                    (stepOf CONFIRM_TX TransferToL1Steps)))) (\<lambda>_.
     and_then (emit (Log ''Calling initiate withdraw'')) (\<lambda>_.
     and_then (sendInitiateWithdraw env tok amount) (\<lambda>p.
     and_then (await p) (\<lambda>l2hash.
     and_then (emit (Log ''Tx hash received'')) (\<lambda>_.
     and_then (emit (HandleProgress
                 (Progress_initiateWithdraw amount (symbol tok)
                    (stepOf INITIATE_WITHDRAW TransferToL1Steps)))) (\<lambda>_.
     and_then (emit (Log ''Waiting for tx to be received on L2'')) (\<lambda>_.
     and_then (emit (WaitForTransaction l2hash RECEIVED)) (\<lambda>_.
     and_then (await (waitForTransaction env l2hash RECEIVED)) (\<lambda>_.
     and_then (emit (Log ''Done'')) (\<lambda>_.
     and_then (emit (TrackSuccess l2hash)) (\<lambda>_.
     emit (HandleData
       \<lparr>t_type = TRANSFER_TO_L1, t_sender = l2Account env, t_recipient = l1Account env,
        t_name = name tok, t_symbol = symbol tok, t_amount = amount, t_l2hash = l2hash,
        t_l1hash = None\<rparr>)))))))))))))"

text \<open>
  The \<^verbatim>\<open>catch\<close> block. Its first statement evaluates \<^verbatim>\<open>ex.message\<close>; when that
  throws, the block is left before \<^verbatim>\<open>trackError\<close> and \<^verbatim>\<open>handleError\<close>.
\<close>

definition transferToL1_catch :: "js_value \<Rightarrow> ('n, unit) block" where
  "transferToL1_catch ex =
     and_then (read_message ex) (\<lambda>msg.
     and_then (emit (LogError (Some msg) ex)) (\<lambda>_.
     and_then (emit (TrackError ex)) (\<lambda>_.
     emit (HandleError (Progress_error TRANSACTION_ERROR ex)))))"

text \<open>
  The hook: the selected token is destructured first, outside the \<^verbatim>\<open>try\<close>; what
  that throws reaches the caller.
\<close>

definition useTransferToL1 :: "'n env \<Rightarrow> 'n \<Rightarrow> ('n, unit) block" where
  "useTransferToL1 env amount =
     and_then (destructure (selectedToken env)) (\<lambda>tok.
     try_catch (transferToL1_try env tok amount) transferToL1_catch)"

section \<open>The completion hook \<^verbatim>\<open>useCompleteTransferToL1\<close>\<close>

text \<open>
  The completion hook returns at its \<^verbatim>\<open>await\<close> and is driven further by callbacks:
  \<^verbatim>\<open>withdraw\<close> invokes the emitter \<^verbatim>\<open>onTransactionHash\<close>, the event manager
  invokes the listener \<^verbatim>\<open>onWithdrawal\<close>, and the promise of \<^verbatim>\<open>withdraw\<close>
  settles. The state of a run is the trace so far and what is still able to call back.
\<close>

record 'n run_state =
  trace :: "'n effect list"
  listener :: bool
  emitter :: bool
  awaiting :: bool

definition initial_state :: "'n run_state" where
  "initial_state = \<lparr>trace = [], listener = False, emitter = False, awaiting = False\<rparr>"

definition record_effect :: "'n effect \<Rightarrow> 'n run_state \<Rightarrow> 'n run_state" where
  "record_effect e s = s\<lparr>trace := trace s @ [e]\<rparr>"

text \<open>Statements in program order: each one transforms the state.\<close>

definition perform :: "('s \<Rightarrow> 's) list \<Rightarrow> 's \<Rightarrow> 's" where
  "perform stmts s = fold (\<lambda>stmt. stmt) stmts s"

text \<open>
  Modelled from the spec: \<^verbatim>\<open>useWithdrawalListener\<close> is imported from
  \<^verbatim>\<open>../providers/EventManagerProvider\<close>, a file that is not among the sources. The
  specification's ListenerBridge: \<^verbatim>\<open>addListener(callback)\<close> registers the
  subscription, \<^verbatim>\<open>removeListener()\<close> deregisters it, and the event source delivers
  \<^verbatim>\<open>(error, event)\<close> to the registered callback once per matched log.
\<close>

definition addListener :: "'n run_state \<Rightarrow> 'n run_state" where
  "addListener s = (record_effect AddListener s)\<lparr>listener := True\<rparr>"

text \<open>
  Modelled from the spec: \<^verbatim>\<open>removeListener()\<close> of the same ListenerBridge; after
  it, the event source has no callback of this run to deliver to.
\<close>

definition removeListener :: "'n run_state \<Rightarrow> 'n run_state" where
  "removeListener s = (record_effect RemoveListener s)\<lparr>listener := False\<rparr>"

text \<open>The event of the withdrawal log, destructured into \<^verbatim>\<open>transactionHash\<close>.\<close>

datatype event = Event (transactionHash: hash)

definition onError :: "js_value \<Rightarrow> 'n run_state \<Rightarrow> 'n run_state" where
  "onError error =
     perform
       [removeListener,
        record_effect (TrackError error),
        record_effect (LogError (optional_message error) error),
        record_effect (HandleError (Progress_error TRANSACTION_ERROR error))]"

definition onTransactionHash ::
  "'n transfer \<Rightarrow> js_error option \<Rightarrow> hash \<Rightarrow> 'n run_state \<Rightarrow> 'n run_state" where
  "onTransactionHash transfer error txHash =
     (case error of
        Some err \<Rightarrow> onError (JsObject err)
      | None \<Rightarrow>
          perform
            [record_effect (Log ''Tx signed''),
             record_effect (HandleProgress
               (Progress_withdraw (t_amount transfer) (t_symbol transfer)
                  (stepOf WITHDRAW CompleteTransferToL1Steps)))])"

definition onWithdrawal ::
  "'n transfer \<Rightarrow> js_error option \<Rightarrow> event \<Rightarrow> 'n run_state \<Rightarrow> 'n run_state" where
  "onWithdrawal transfer error ev =
     (case error of
        Some err \<Rightarrow> onError (JsObject err)
      | None \<Rightarrow>
          (let l1hash = transactionHash ev in
           perform
             [record_effect (Log ''Done''),
              record_effect (TrackSuccess l1hash),
              record_effect (HandleData (transfer\<lparr>t_l1hash := Some l1hash\<rparr>))]))"

text \<open>
  \<^verbatim>\<open>sendWithdrawal\<close> records the initiated event, resolves the token (destructuring
  the registry's answer, which throws for an unknown symbol) and calls \<^verbatim>\<open>withdraw\<close>
  with the emitter. It returns the state and the value it threw, if any; the promise it
  returns settles later, by a signal.
\<close>

definition sendWithdrawal ::
  "'n env \<Rightarrow> 'n transfer \<Rightarrow> 'n run_state \<Rightarrow> 'n run_state \<times> js_value option" where
  "sendWithdrawal env transfer s =
     (let s1 = record_effect (TrackInitiated
                 (Initiated_CompleteTransferToL1 (l1Account env) (t_l2hash transfer)
                    (t_amount transfer) (t_symbol transfer))) s
      in case getL1Token env (t_symbol transfer) of
           None \<Rightarrow> (s1, Some (JsObject TypeError_destructure))
         | Some tok \<Rightarrow>
             (let tokenBridgeContract = getL1TokenBridgeContract env (bridgeAddress tok) in
              ((record_effect (CallWithdraw (l1Account env) tokenBridgeContract
                  (t_amount transfer) (decimals tok)) s1)\<lparr>emitter := True\<rparr>, None)))"

text \<open>The body of the hook up to its \<^verbatim>\<open>await\<close>, with the \<^verbatim>\<open>catch\<close> of a synchronous throw.\<close>

definition useCompleteTransferToL1 :: "'n env \<Rightarrow> 'n transfer \<Rightarrow> 'n run_state" where
  "useCompleteTransferToL1 env transfer =
     (let s = perform
                [record_effect (Log ''CompleteTransferToL1 called''),
                 record_effect (HandleProgress
                   (Progress_waitForConfirm (l1Config_name env)
                      (stepOf CONFIRM_TX CompleteTransferToL1Steps))),
                 addListener,
                 record_effect (Log ''Calling withdraw'')]
                initial_state
      in case sendWithdrawal env transfer s of
           (s', Some ex) \<Rightarrow> onError ex s'
         | (s', None) \<Rightarrow> s'\<lparr>awaiting := True\<rparr>)"

text \<open>
  What reaches the run after the hook has returned: the emitter is called with
  \<^verbatim>\<open>(error, transactionHash)\<close>, the listener with \<^verbatim>\<open>(error, event)\<close>, or the
  awaited promise settles (\<open>None\<close>: it resolves; \<open>Some ex\<close>: it rejects, and the
  \<^verbatim>\<open>catch\<close> block runs \<^verbatim>\<open>onError(ex)\<close>). A callback runs only while its source
  holds it: the emitter once \<^verbatim>\<open>withdraw\<close> was called, the listener while it is
  registered, the continuation of \<^verbatim>\<open>await\<close> once.
\<close>

datatype signal =
    TransactionHash "js_error option" hash
  | Withdrawal "js_error option" event
  | Settled "js_value option"

definition deliver :: "'n transfer \<Rightarrow> signal \<Rightarrow> 'n run_state \<Rightarrow> 'n run_state" where
  "deliver transfer sig s =
     (case sig of
        TransactionHash error txHash \<Rightarrow>
          if emitter s then onTransactionHash transfer error txHash s else s
      | Withdrawal error ev \<Rightarrow>
          if listener s then onWithdrawal transfer error ev s else s
      | Settled None \<Rightarrow> if awaiting s then s\<lparr>awaiting := False\<rparr> else s
      | Settled (Some ex) \<Rightarrow> if awaiting s then onError ex (s\<lparr>awaiting := False\<rparr>) else s)"

definition completeTransferToL1 :: "'n env \<Rightarrow> 'n transfer \<Rightarrow> signal list \<Rightarrow> 'n run_state" where
  "completeTransferToL1 env transfer sigs =
     fold (deliver transfer) sigs (useCompleteTransferToL1 env transfer)"

section \<open>Outcomes and tracking records of a trace\<close>

text \<open>
  The outcome of a run is what it hands to \<^verbatim>\<open>handleData\<close> (the finished transfer
  record) or to \<^verbatim>\<open>handleError\<close> (an error descriptor with its kind and cause).
\<close>

datatype 'n outcome = Success "'n transfer" | Failure TransferError js_value

fun outcome_of :: "'n effect \<Rightarrow> 'n outcome option" where
  "outcome_of (HandleData r) = Some (Success r)"
| "outcome_of (HandleError (Progress_error kind cause)) = Some (Failure kind cause)"
| "outcome_of _ = None"

definition outcomes :: "'n effect list \<Rightarrow> 'n outcome list" where
  "outcomes tr = List.map_filter outcome_of tr"

fun is_tracked_result :: "'n effect \<Rightarrow> bool" where
  "is_tracked_result (TrackSuccess h) = True"
| "is_tracked_result (TrackError ex) = True"
| "is_tracked_result _ = False"

definition tracked_results :: "'n effect list \<Rightarrow> 'n effect list" where
  "tracked_results tr = filter is_tracked_result tr"

fun is_progress :: "'n effect \<Rightarrow> bool" where
  "is_progress (HandleProgress p) = True"
| "is_progress _ = False"

fun is_initiated :: "'n effect \<Rightarrow> bool" where
  "is_initiated (TrackInitiated p) = True"
| "is_initiated _ = False"

fun is_chain_write :: "'n effect \<Rightarrow> bool" where
  "is_chain_write (CallInitiateWithdraw r c a d) = True"
| "is_chain_write (CallWithdraw r c a d) = True"
| "is_chain_write _ = False"

fun is_tracked_success :: "'n effect \<Rightarrow> bool" where
  "is_tracked_success (TrackSuccess h) = True"
| "is_tracked_success _ = False"

fun is_success :: "'n outcome \<Rightarrow> bool" where
  "is_success (Success r) = True"
| "is_success (Failure kind cause) = False"

text \<open>The step number that a progress event carries.\<close>

fun progress_step :: "'n effect \<Rightarrow> int option" where
  "progress_step (HandleProgress (Progress_waitForConfirm n st)) = Some st"
| "progress_step (HandleProgress (Progress_initiateWithdraw a sy st)) = Some st"
| "progress_step (HandleProgress (Progress_withdraw a sy st)) = Some st"
| "progress_step _ = None"

definition progress_steps :: "'n effect list \<Rightarrow> int list" where
  "progress_steps tr = List.map_filter progress_step tr"

text \<open>The promise that the initiation hook awaits after its chain write.\<close>

definition initiateWithdraw_promise :: "'n env \<Rightarrow> token \<Rightarrow> 'n \<Rightarrow> hash promise" where
  "initiateWithdraw_promise env tok amount =
     initiateWithdraw env (l1Account env) (getTokenBridgeContract env (bridgeAddress tok))
       amount (decimals tok)"

text \<open>The error kinds of the Failure outcomes of a trace.\<close>

fun failure_kind :: "'n outcome \<Rightarrow> TransferError option" where
  "failure_kind (Failure kind cause) = Some kind"
| "failure_kind (Success r) = None"

definition failure_kinds :: "'n effect list \<Rightarrow> TransferError list" where
  "failure_kinds tr = List.map_filter failure_kind (outcomes tr)"

text \<open>The trace of a completion run that received the signals \<open>sigs\<close>.\<close>

definition completion_trace :: "'n env \<Rightarrow> 'n transfer \<Rightarrow> signal list \<Rightarrow> 'n effect list" where
  "completion_trace env transfer sigs = trace (completeTransferToL1 env transfer sigs)"

text \<open>
  A signal is quiet when it reports neither an error nor the withdrawal: the emitter
  called with a transaction hash, or the awaited promise resolving. Every other signal
  is terminal: an error from the emitter, anything from the listener, a rejection.
\<close>

fun is_quiet :: "signal \<Rightarrow> bool" where
  "is_quiet (TransactionHash None h) = True"
| "is_quiet (Settled None) = True"
| "is_quiet _ = False"

fun is_settled :: "signal \<Rightarrow> bool" where
  "is_settled (Settled r) = True"
| "is_settled _ = False"

section \<open>An example environment\<close>

definition example_token :: token where
  "example_token = \<lparr>decimals = 18, bridgeAddress = ''0xb1'', name = ''Ether'', symbol = ''ETH''\<rparr>"

definition example_env :: "int env" where
  "example_env =
     \<lparr>l1Account = Some ''0xa1'', l2Account = Some ''0xa2'',
      l1Config_name = ''main'', l2Config_name = ''SN_MAIN'',
      selectedToken = Some example_token,
      getL1Token = (\<lambda>sym. if sym = ''ETH'' then Some example_token else None),
      getTokenBridgeContract = Contract,
      getL1TokenBridgeContract = Contract,
      initiateWithdraw = (\<lambda>recipient c amount decs. Resolves ''0xabc''),
      waitForTransaction = (\<lambda>h status. Resolves ())\<rparr>"

definition example_rejecting_env :: "int env" where
  "example_rejecting_env =
     example_env\<lparr>initiateWithdraw :=
       (\<lambda>recipient c amount decs. Rejects (JsObject (JsError ''insufficient funds'')))\<rparr>"

definition example_undefined_rejection_env :: "int env" where
  "example_undefined_rejection_env =
     example_env\<lparr>initiateWithdraw := (\<lambda>recipient c amount decs. Rejects JsUndefined)\<rparr>"

definition example_transfer :: "int transfer" where
  "example_transfer =
     \<lparr>t_type = TRANSFER_TO_L1, t_sender = Some ''0xa2'', t_recipient = Some ''0xa1'',
      t_name = ''Ether'', t_symbol = ''ETH'', t_amount = 5, t_l2hash = ''0xabc'',
      t_l1hash = None\<rparr>"

section \<open>Decimal scaling\<close>

text \<open>
  \<^verbatim>\<open>toDecimals\<close> and \<^verbatim>\<open>fromDecimals\<close> compute on JavaScript numbers (IEEE 754
  doubles) with \<^verbatim>\<open>*\<close>, \<^verbatim>\<open>/\<close> and \<^verbatim>\<open>Math.pow\<close>. The arithmetic is a parameter:
  the three operations and the embedding of a numeric literal. An omitted argument is
  \<^verbatim>\<open>undefined\<close>, \<open>None\<close>, and takes the parameter's default.
\<close>

record 'n number_ops =
  num_times :: "'n \<Rightarrow> 'n \<Rightarrow> 'n"
  num_divide :: "'n \<Rightarrow> 'n \<Rightarrow> 'n"
  Math_pow :: "'n \<Rightarrow> 'n \<Rightarrow> 'n"
  num_literal :: "nat \<Rightarrow> 'n"

definition TEN_BASE :: "'n number_ops \<Rightarrow> 'n" where
  "TEN_BASE ops = num_literal ops 10"

definition DEFAULT_DECIMALS :: "'n number_ops \<Rightarrow> 'n" where
  "DEFAULT_DECIMALS ops = num_literal ops 18"

definition powerOf :: "'n number_ops \<Rightarrow> 'n \<Rightarrow> 'n" where
  "powerOf ops decs = Math_pow ops (TEN_BASE ops) decs"

definition default_arg :: "'a option \<Rightarrow> 'a \<Rightarrow> 'a" where
  "default_arg arg dflt = (case arg of None \<Rightarrow> dflt | Some a \<Rightarrow> a)"

definition toDecimals :: "'n number_ops \<Rightarrow> 'n \<Rightarrow> 'n option \<Rightarrow> 'n" where
  "toDecimals ops val decs =
     num_times ops val (powerOf ops (default_arg decs (DEFAULT_DECIMALS ops)))"

definition fromDecimals :: "'n number_ops \<Rightarrow> 'n \<Rightarrow> 'n option \<Rightarrow> 'n" where
  "fromDecimals ops val decs =
     num_divide ops val (powerOf ops (default_arg decs (DEFAULT_DECIMALS ops)))"

section \<open>The arithmetic of JavaScript numbers\<close>

text \<open>
  A JavaScript number is an IEEE 754 binary64 value. A finite one is a rational number
  \<open>m * 2 ^ q\<close> with \<open>\<bar>m\<bar> < 2 ^ 53\<close> and \<open>- 1074 \<le> q \<le> 971\<close>. The model
  computes with the finite values: \<open>Some x\<close> is the finite double \<open>x\<close>, and \<open>None\<close>
  stands for a result that the model does not determine (in JavaScript \<^verbatim>\<open>NaN\<close>, an
  infinity, or the result of an operation on one of them).

  \<open>expo x\<close> is the binary exponent of a non-zero \<open>x\<close>: the \<open>e\<close> with
  \<open>2 ^ e \<le> \<bar>x\<bar> < 2 ^ (e + 1)\<close>, found from the bit lengths of numerator and
  denominator.
\<close>

definition expo :: "rat \<Rightarrow> int" where
  "expo x =
     (case quotient_of \<bar>x\<bar> of
        (p, q) \<Rightarrow>
          (let k = bitlen p - bitlen q in if 2 powi k \<le> \<bar>x\<bar> then k else k - 1))"

text \<open>Rounding to the nearest integer, a tie going to the even one.\<close>

definition round_half_even :: "rat \<Rightarrow> int" where
  "round_half_even m =
     (let f = \<lfloor>m\<rfloor>; d = m - of_int f
      in if d < 1 / 2 then f else if 1 / 2 < d then f + 1 else if even f then f else f + 1)"

text \<open>
  Rounding of an exact result to binary64, to nearest with ties to even: the result keeps
  53 significant bits, the exponent of the last bit is at least \<open>- 1074\<close> (gradual
  underflow), and a rounded magnitude of \<open>2 ^ 1024\<close> or more overflows.
\<close>

definition round64 :: "rat \<Rightarrow> rat option" where
  "round64 x =
     (if x = 0 then Some 0
      else (let q = max (expo x) (- 1022) - 52;
                m = round_half_even (x / 2 powi q)
            in if 971 < q \<or> (q = 971 \<and> 2 ^ 53 \<le> \<bar>m\<bar>) then None
               else Some (of_int m * 2 powi q)))"

text \<open>A rational number is a double when rounding leaves it as it is.\<close>

definition is_double :: "rat \<Rightarrow> bool" where
  "is_double x \<longleftrightarrow> round64 x = Some x"

text \<open>
  The operators \<^verbatim>\<open>*\<close> and \<^verbatim>\<open>/\<close> round the exact result once. A division by zero
  gives an infinity or \<^verbatim>\<open>NaN\<close>.
\<close>

definition binary64_times :: "rat option \<Rightarrow> rat option \<Rightarrow> rat option" where
  "binary64_times a b =
     (case (a, b) of
        (Some x, Some y) \<Rightarrow> round64 (x * y)
      | _ \<Rightarrow> None)"

definition binary64_divide :: "rat option \<Rightarrow> rat option \<Rightarrow> rat option" where
  "binary64_divide a b =
     (case (a, b) of
        (Some x, Some y) \<Rightarrow> if y = 0 then None else round64 (x / y)
      | _ \<Rightarrow> None)"

text \<open>
  \<^verbatim>\<open>Math.pow\<close> is implementation-approximated. For an exponent that is a natural
  number the model gives the exact power, rounded once: for \<open>10 ^ d\<close> with
  \<open>d \<le> 22\<close> that is the exact power itself. Other exponents are not determined by
  the model.
\<close>

definition binary64_pow :: "rat option \<Rightarrow> rat option \<Rightarrow> rat option" where
  "binary64_pow a b =
     (case (a, b) of
        (Some x, Some y) \<Rightarrow>
          if 0 \<le> y \<and> of_int \<lfloor>y\<rfloor> = y then round64 (x ^ nat \<lfloor>y\<rfloor>) else None
      | _ \<Rightarrow> None)"

definition binary64 :: "rat option number_ops" where
  "binary64 =
     \<lparr>num_times = binary64_times, num_divide = binary64_divide, Math_pow = binary64_pow,
      num_literal = (\<lambda>n. round64 (of_nat n))\<rparr>"

section \<open>The hooks as traces\<close>

lemmas block_defs = emit_def and_then_def await_def try_catch_def destructure_def
  read_message_def

lemmas transferToL1_defs = useTransferToL1_def transferToL1_try_def transferToL1_catch_def
  sendInitiateWithdraw_def initiateWithdraw_promise_def

lemmas state_defs = record_effect_def perform_def addListener_def removeListener_def
  initial_state_def

lemmas example_defs = example_env_def example_token_def example_transfer_def
  example_rejecting_env_def example_undefined_rejection_env_def

lemma stepOf_TransferToL1 [simp]:
  "stepOf CONFIRM_TX TransferToL1Steps = 0"
  "stepOf INITIATE_WITHDRAW TransferToL1Steps = 1"
  by (simp_all add: stepOf_def TransferToL1Steps_def)

lemma stepOf_CompleteTransferToL1 [simp]:
  "stepOf CONFIRM_TX CompleteTransferToL1Steps = 0"
  "stepOf WITHDRAW CompleteTransferToL1Steps = 1"
  by (simp_all add: stepOf_def CompleteTransferToL1Steps_def)

text \<open>
  The initiation hook, path by path: what it has done when no token is selected, when the
  wallet never answers, when the submission is rejected, when the receipt never comes,
  when waiting for the receipt fails, and when everything succeeds. A rejection is
  caught; the \<^verbatim>\<open>catch\<close> block completes for an object and throws for
  \<^verbatim>\<open>undefined\<close> and \<^verbatim>\<open>null\<close>.
\<close>

lemma useTransferToL1_unfold:
  "useTransferToL1 env amount =
    (case selectedToken env of
       None \<Rightarrow> ([], Thrown (JsObject TypeError_destructure))
     | Some tok \<Rightarrow>
        (let c = getTokenBridgeContract env (bridgeAddress tok);
             start = [Log ''TransferToL1 called'',
                      HandleProgress (Progress_waitForConfirm (l2Config_name env) 0),
                      Log ''Calling initiate withdraw'',
                      TrackInitiated (Initiated_TransferToL1 (l2Account env) (l1Account env)
                        amount (symbol tok)),
                      CallInitiateWithdraw (l1Account env) c amount (decimals tok)];
             caught = (\<lambda>done ex.
                case ex of
                  JsObject err \<Rightarrow>
                    (done @ [LogError (Some (message err)) ex, TrackError ex,
                             HandleError (Progress_error TRANSACTION_ERROR ex)], Returned ())
                | JsUndefined \<Rightarrow> (done, Thrown (JsObject TypeError_read_property))
                | JsNull \<Rightarrow> (done, Thrown (JsObject TypeError_read_property)))
         in case initiateWithdraw_promise env tok amount of
              Never \<Rightarrow> (start, Suspended)
            | Rejects ex \<Rightarrow> caught start ex
            | Resolves l2hash \<Rightarrow>
                (let mid = [Log ''Tx hash received'',
                            HandleProgress (Progress_initiateWithdraw amount (symbol tok) 1),
                            Log ''Waiting for tx to be received on L2'',
                            WaitForTransaction l2hash RECEIVED]
                 in case waitForTransaction env l2hash RECEIVED of
                      Never \<Rightarrow> (start @ mid, Suspended)
                    | Rejects ex \<Rightarrow> caught (start @ mid) ex
                    | Resolves u \<Rightarrow>
                        (start @ mid @
                         [Log ''Done'', TrackSuccess l2hash,
                          HandleData \<lparr>t_type = TRANSFER_TO_L1, t_sender = l2Account env,
                            t_recipient = l1Account env, t_name = name tok,
                            t_symbol = symbol tok, t_amount = amount, t_l2hash = l2hash,
                            t_l1hash = None\<rparr>],
                         Returned ()))))"
  by (simp add: transferToL1_defs block_defs Let_def
      split: option.splits promise.splits js_value.splits)

text \<open>The callbacks of the completion hook, as what they append to the trace.\<close>

lemma onError_unfold:
  "onError ex s =
     s\<lparr>trace := trace s @ [RemoveListener, TrackError ex, LogError (optional_message ex) ex,
                            HandleError (Progress_error TRANSACTION_ERROR ex)],
       listener := False\<rparr>"
  by (simp add: onError_def state_defs)

lemma onTransactionHash_unfold:
  "onTransactionHash transfer error txHash s =
     (case error of
        Some err \<Rightarrow> onError (JsObject err) s
      | None \<Rightarrow> s\<lparr>trace := trace s @
          [Log ''Tx signed'',
           HandleProgress (Progress_withdraw (t_amount transfer) (t_symbol transfer) 1)]\<rparr>)"
  by (simp add: onTransactionHash_def state_defs split: option.splits)

lemma onWithdrawal_unfold:
  "onWithdrawal transfer error ev s =
     (case error of
        Some err \<Rightarrow> onError (JsObject err) s
      | None \<Rightarrow> s\<lparr>trace := trace s @
          [Log ''Done'', TrackSuccess (transactionHash ev),
           HandleData (transfer\<lparr>t_l1hash := Some (transactionHash ev)\<rparr>)]\<rparr>)"
  by (simp add: onWithdrawal_def state_defs Let_def split: option.splits)

lemma useCompleteTransferToL1_unfold:
  "useCompleteTransferToL1 env transfer =
     (let start = [Log ''CompleteTransferToL1 called'',
                   HandleProgress (Progress_waitForConfirm (l1Config_name env) 0),
                   AddListener,
                   Log ''Calling withdraw'',
                   TrackInitiated (Initiated_CompleteTransferToL1 (l1Account env)
                     (t_l2hash transfer) (t_amount transfer) (t_symbol transfer))]
      in case getL1Token env (t_symbol transfer) of
           None \<Rightarrow>
             \<lparr>trace = start @
                [RemoveListener, TrackError (JsObject TypeError_destructure),
                 LogError (Some (message TypeError_destructure))
                   (JsObject TypeError_destructure),
                 HandleError (Progress_error TRANSACTION_ERROR
                   (JsObject TypeError_destructure))],
              listener = False, emitter = False, awaiting = False\<rparr>
         | Some tok \<Rightarrow>
             \<lparr>trace = start @
                [CallWithdraw (l1Account env) (getL1TokenBridgeContract env (bridgeAddress tok))
                   (t_amount transfer) (decimals tok)],
              listener = True, emitter = True, awaiting = True\<rparr>)"
  by (simp add: useCompleteTransferToL1_def sendWithdrawal_def onError_unfold state_defs Let_def
      optional_message_def split: option.splits)

lemmas deliver_simps = deliver_def onTransactionHash_unfold onWithdrawal_unfold onError_unfold

lemmas run_simps = completion_trace_def completeTransferToL1_def useCompleteTransferToL1_unfold
  deliver_simps

lemma run_split:
  "completeTransferToL1 env transfer (pre @ t # post) =
     fold (deliver transfer) post
       (deliver transfer t (fold (deliver transfer) pre (useCompleteTransferToL1 env transfer)))"
  by (simp add: completeTransferToL1_def)

subsection \<open>Every signal extends the trace, and never by a chain write\<close>

lemma deliver_extends:
  "\<exists>d. trace (deliver transfer sig s) = trace s @ d \<and> filter is_chain_write d = []"
  by (auto simp add: deliver_simps split: signal.splits option.splits)

lemma fold_deliver_extends:
  "\<exists>d. trace (fold (deliver transfer) sigs s) = trace s @ d \<and> filter is_chain_write d = []"
proof (induction sigs arbitrary: s)
  case Nil
  then show ?case by simp
next
  case (Cons sig sigs)
  obtain d where d: "trace (deliver transfer sig s) = trace s @ d" "filter is_chain_write d = []"
    using deliver_extends by blast
  obtain d' where d': "trace (fold (deliver transfer) sigs (deliver transfer sig s)) =
      trace (deliver transfer sig s) @ d'" "filter is_chain_write d' = []"
    using Cons.IH by blast
  from d d' have "trace (fold (deliver transfer) (sig # sigs) s) = trace s @ (d @ d') \<and>
      filter is_chain_write (d @ d') = []"
    by simp
  then show ?case by blast
qed

lemma completion_trace_extends:
  "\<exists>d. completion_trace env transfer sigs = trace (useCompleteTransferToL1 env transfer) @ d \<and>
       filter is_chain_write d = []"
  unfolding completion_trace_def completeTransferToL1_def by (rule fold_deliver_extends)

lemma takeWhile_no_chain_write:
  "filter is_chain_write d = [] \<Longrightarrow> takeWhile (\<lambda>e. \<not> is_chain_write e) d = d"
  by (induction d) (auto split: if_splits)

subsection \<open>Tracking records and outcomes come in pairs\<close>

lemma deliver_paired:
  "map is_tracked_success (tracked_results (trace s)) = map is_success (outcomes (trace s)) \<Longrightarrow>
   map is_tracked_success (tracked_results (trace (deliver transfer sig s))) =
     map is_success (outcomes (trace (deliver transfer sig s)))"
  by (auto simp add: deliver_simps tracked_results_def outcomes_def
      List.map_filter_def split: signal.splits option.splits)

lemma fold_deliver_paired:
  "map is_tracked_success (tracked_results (trace s)) = map is_success (outcomes (trace s)) \<Longrightarrow>
   map is_tracked_success (tracked_results (trace (fold (deliver transfer) sigs s))) =
     map is_success (outcomes (trace (fold (deliver transfer) sigs s)))"
  by (induction sigs arbitrary: s) (simp_all add: deliver_paired)

lemma start_paired:
  "map is_tracked_success (tracked_results (trace (useCompleteTransferToL1 env transfer))) =
     map is_success (outcomes (trace (useCompleteTransferToL1 env transfer)))"
  by (simp add: useCompleteTransferToL1_unfold tracked_results_def outcomes_def
      List.map_filter_def Let_def split: option.splits)

lemma run_paired:
  "map is_tracked_success (tracked_results (completion_trace env transfer sigs)) =
     map is_success (outcomes (completion_trace env transfer sigs))"
  by (simp add: completion_trace_def completeTransferToL1_def fold_deliver_paired start_paired)

subsection \<open>Quiet signals, terminal signals, and a run that nothing can call back\<close>

lemma deliver_quiet:
  "is_quiet sig \<Longrightarrow>
     outcomes (trace (deliver transfer sig s)) = outcomes (trace s) \<and>
     tracked_results (trace (deliver transfer sig s)) = tracked_results (trace s) \<and>
     listener (deliver transfer sig s) = listener s \<and>
     emitter (deliver transfer sig s) = emitter s \<and>
     (awaiting (deliver transfer sig s) \<longleftrightarrow> awaiting s \<and> \<not> is_settled sig)"
  by (cases sig rule: is_quiet.cases)
     (simp_all add: deliver_simps tracked_results_def outcomes_def List.map_filter_def)

lemma fold_deliver_quiet:
  "list_all is_quiet sigs \<Longrightarrow>
     outcomes (trace (fold (deliver transfer) sigs s)) = outcomes (trace s) \<and>
     tracked_results (trace (fold (deliver transfer) sigs s)) = tracked_results (trace s) \<and>
     listener (fold (deliver transfer) sigs s) = listener s \<and>
     emitter (fold (deliver transfer) sigs s) = emitter s \<and>
     (awaiting (fold (deliver transfer) sigs s) \<longleftrightarrow> awaiting s \<and> filter is_settled sigs = [])"
proof (induction sigs arbitrary: s)
  case Nil
  then show ?case by simp
next
  case (Cons sig sigs)
  from Cons.prems have q: "is_quiet sig" and qs: "list_all is_quiet sigs" by simp_all
  show ?case
    using Cons.IH [OF qs, of "deliver transfer sig s"] deliver_quiet [OF q, of transfer s]
    by auto
qed

lemma start_resolved:
  "getL1Token env (t_symbol transfer) = Some tok \<Longrightarrow>
     outcomes (trace (useCompleteTransferToL1 env transfer)) = [] \<and>
     tracked_results (trace (useCompleteTransferToL1 env transfer)) = [] \<and>
     listener (useCompleteTransferToL1 env transfer) \<and>
     emitter (useCompleteTransferToL1 env transfer) \<and>
     awaiting (useCompleteTransferToL1 env transfer)"
  by (simp add: useCompleteTransferToL1_unfold tracked_results_def outcomes_def
      List.map_filter_def)

lemma deliver_terminal:
  "\<not> is_quiet t \<Longrightarrow> listener s \<Longrightarrow> emitter s \<Longrightarrow> (is_settled t \<longrightarrow> awaiting s) \<Longrightarrow>
     outcomes (trace s) = [] \<Longrightarrow> tracked_results (trace s) = [] \<Longrightarrow>
     length (outcomes (trace (deliver transfer t s))) = 1 \<and>
     length (tracked_results (trace (deliver transfer t s))) = 1"
  by (cases t rule: is_quiet.cases)
     (auto simp add: deliver_simps tracked_results_def outcomes_def List.map_filter_def
        split: option.splits)

lemma single_terminal_signal:
  assumes tok: "getL1Token env (t_symbol transfer) = Some tok"
    and pre: "list_all is_quiet pre" and t: "\<not> is_quiet t" and post: "list_all is_quiet post"
    and once: "length (filter is_settled (pre @ t # post)) \<le> 1"
  shows "length (outcomes (completion_trace env transfer (pre @ t # post))) = 1 \<and>
         length (tracked_results (completion_trace env transfer (pre @ t # post))) = 1"
proof -
  let ?s0 = "useCompleteTransferToL1 env transfer"
  let ?s1 = "fold (deliver transfer) pre ?s0"
  let ?s2 = "deliver transfer t ?s1"
  have s1: "outcomes (trace ?s1) = []" "tracked_results (trace ?s1) = []"
    "listener ?s1" "emitter ?s1" "awaiting ?s1 \<longleftrightarrow> filter is_settled pre = []"
    using fold_deliver_quiet [OF pre, of transfer ?s0] start_resolved [OF tok] by simp_all
  have "is_settled t \<longrightarrow> filter is_settled pre = []"
    using once by (auto split: if_splits)
  with s1 have "is_settled t \<longrightarrow> awaiting ?s1" by simp
  then have s2: "length (outcomes (trace ?s2)) = 1 \<and> length (tracked_results (trace ?s2)) = 1"
    using deliver_terminal [OF t s1(3) s1(4) _ s1(1) s1(2)] by simp
  show ?thesis
    using fold_deliver_quiet [OF post, of transfer ?s2] s2
    by (simp add: completion_trace_def run_split)
qed

lemma deliver_inert:
  "\<not> listener s \<Longrightarrow> \<not> emitter s \<Longrightarrow> \<not> awaiting s \<Longrightarrow> deliver transfer sig s = s"
  by (simp add: deliver_def split: signal.splits option.splits)

lemma fold_deliver_inert:
  "\<not> listener s \<Longrightarrow> \<not> emitter s \<Longrightarrow> \<not> awaiting s \<Longrightarrow> fold (deliver transfer) sigs s = s"
  by (induction sigs) (simp_all add: deliver_inert)

lemma unresolved_token_run:
  "getL1Token env (t_symbol transfer) = None \<Longrightarrow>
     completion_trace env transfer sigs =
       [Log ''CompleteTransferToL1 called'',
        HandleProgress (Progress_waitForConfirm (l1Config_name env)
          (stepOf CONFIRM_TX CompleteTransferToL1Steps)),
        AddListener,
        Log ''Calling withdraw'',
        TrackInitiated (Initiated_CompleteTransferToL1 (l1Account env) (t_l2hash transfer)
          (t_amount transfer) (t_symbol transfer)),
        RemoveListener,
        TrackError (JsObject TypeError_destructure),
        LogError (Some (message TypeError_destructure)) (JsObject TypeError_destructure),
        HandleError (Progress_error TRANSACTION_ERROR (JsObject TypeError_destructure))]"
proof -
  assume none: "getL1Token env (t_symbol transfer) = None"
  let ?s0 = "useCompleteTransferToL1 env transfer"
  have "\<not> listener ?s0" "\<not> emitter ?s0" "\<not> awaiting ?s0"
    using none by (simp_all add: useCompleteTransferToL1_unfold)
  then have "fold (deliver transfer) sigs ?s0 = ?s0" by (rule fold_deliver_inert)
  then show ?thesis
    using none by (simp add: completion_trace_def completeTransferToL1_def
        useCompleteTransferToL1_unfold)
qed

subsection \<open>Where a success in the trace comes from\<close>

lemma deliver_success_source:
  "TrackSuccess h \<in> set (trace (deliver transfer sig s)) \<Longrightarrow>
     TrackSuccess h \<in> set (trace s) \<or> (\<exists>ev. sig = Withdrawal None ev \<and> transactionHash ev = h)"
  by (auto simp add: deliver_simps split: signal.splits option.splits if_splits)

lemma fold_deliver_success_source:
  "TrackSuccess h \<in> set (trace (fold (deliver transfer) sigs s)) \<Longrightarrow>
     TrackSuccess h \<in> set (trace s) \<or>
     (\<exists>ev. Withdrawal None ev \<in> set sigs \<and> transactionHash ev = h)"
proof (induction sigs arbitrary: s)
  case Nil
  then show ?case by simp
next
  case (Cons sig sigs)
  from Cons.prems
  have "TrackSuccess h \<in> set (trace (fold (deliver transfer) sigs (deliver transfer sig s)))"
    by simp
  from Cons.IH [OF this] show ?case
    using deliver_success_source [of h transfer sig s] by auto
qed

lemma deliver_data_source:
  "HandleData r \<in> set (trace (deliver transfer sig s)) \<Longrightarrow>
     HandleData r \<in> set (trace s) \<or>
     (\<exists>ev. sig = Withdrawal None ev \<and> r = transfer\<lparr>t_l1hash := Some (transactionHash ev)\<rparr>)"
  by (auto simp add: deliver_simps split: signal.splits option.splits if_splits)

lemma fold_deliver_data_source:
  "HandleData r \<in> set (trace (fold (deliver transfer) sigs s)) \<Longrightarrow>
     HandleData r \<in> set (trace s) \<or>
     (\<exists>ev. Withdrawal None ev \<in> set sigs \<and>
           r = transfer\<lparr>t_l1hash := Some (transactionHash ev)\<rparr>)"
proof (induction sigs arbitrary: s)
  case Nil
  then show ?case by simp
next
  case (Cons sig sigs)
  from Cons.prems
  have "HandleData r \<in> set (trace (fold (deliver transfer) sigs (deliver transfer sig s)))"
    by simp
  from Cons.IH [OF this] show ?case
    using deliver_data_source [of r transfer sig s] by auto
qed

lemma start_no_success:
  "TrackSuccess h \<notin> set (trace (useCompleteTransferToL1 env transfer))"
  "HandleData r \<notin> set (trace (useCompleteTransferToL1 env transfer))"
  by (simp_all add: useCompleteTransferToL1_unfold Let_def split: option.splits)

subsection \<open>The only error kind is the transaction error\<close>

lemma deliver_failure_kinds:
  "list_all (\<lambda>kind. kind = TRANSACTION_ERROR) (failure_kinds (trace s)) \<Longrightarrow>
   list_all (\<lambda>kind. kind = TRANSACTION_ERROR) (failure_kinds (trace (deliver transfer sig s)))"
  by (auto simp add: deliver_simps failure_kinds_def outcomes_def List.map_filter_def
      split: signal.splits option.splits)

lemma fold_deliver_failure_kinds:
  "list_all (\<lambda>kind. kind = TRANSACTION_ERROR) (failure_kinds (trace s)) \<Longrightarrow>
   list_all (\<lambda>kind. kind = TRANSACTION_ERROR)
     (failure_kinds (trace (fold (deliver transfer) sigs s)))"
  by (induction sigs arbitrary: s) (simp_all add: deliver_failure_kinds)

lemma completion_failure_kinds:
  "list_all (\<lambda>kind. kind = TRANSACTION_ERROR)
     (failure_kinds (completion_trace env transfer sigs))"
proof -
  have "list_all (\<lambda>kind. kind = TRANSACTION_ERROR)
      (failure_kinds (trace (useCompleteTransferToL1 env transfer)))"
    by (simp add: useCompleteTransferToL1_unfold failure_kinds_def outcomes_def
        List.map_filter_def Let_def split: option.splits)
  then show ?thesis
    unfolding completion_trace_def completeTransferToL1_def
    by (rule fold_deliver_failure_kinds)
qed

lemma transferToL1_failure_kinds:
  "list_all (\<lambda>kind. kind = TRANSACTION_ERROR) (failure_kinds (fst (useTransferToL1 env amount)))"
  by (simp add: useTransferToL1_unfold failure_kinds_def outcomes_def List.map_filter_def
      Let_def split: option.splits promise.splits js_value.splits)

section \<open>Claims about the completion hook\<close>




text \<open>
  Claim C3 at a run that succeeds: the signing callback reports the hash, the promise
  resolves, the withdrawal event arrives. The claim says that the success path calls
  \<^verbatim>\<open>removeListener\<close> as the error path does. The trace of the run has no
  \<^verbatim>\<open>RemoveListener\<close>, the listener is still registered when the Success has been
  delivered, and a further withdrawal event yields a second Success for the same
  transfer.
\<close>

theorem completion_success_keeps_listener:
  "completion_trace example_env example_transfer
     [TransactionHash None ''0xl1'', Settled None, Withdrawal None (Event ''0xl1'')] =
     [Log ''CompleteTransferToL1 called'',
      HandleProgress (Progress_waitForConfirm ''main'' 0),
      AddListener,
      Log ''Calling withdraw'',
      TrackInitiated (Initiated_CompleteTransferToL1 (Some ''0xa1'') ''0xabc'' 5 ''ETH''),
      CallWithdraw (Some ''0xa1'') (Contract ''0xb1'') 5 18,
      Log ''Tx signed'',
      HandleProgress (Progress_withdraw 5 ''ETH'' 1),
      Log ''Done'',
      TrackSuccess ''0xl1'',
      HandleData (example_transfer\<lparr>t_l1hash := Some ''0xl1''\<rparr>)] \<and>
   listener (completeTransferToL1 example_env example_transfer
     [TransactionHash None ''0xl1'', Settled None, Withdrawal None (Event ''0xl1'')]) = True \<and>
   outcomes (completion_trace example_env example_transfer
     [TransactionHash None ''0xl1'', Settled None, Withdrawal None (Event ''0xl1''),
      Withdrawal None (Event ''0xl9'')]) =
     [Success (example_transfer\<lparr>t_l1hash := Some ''0xl1''\<rparr>),
      Success (example_transfer\<lparr>t_l1hash := Some ''0xl9''\<rparr>)]"
  by (simp add: run_simps example_defs outcomes_def List.map_filter_def)

text \<open>
  The error path, for comparison: \<^verbatim>\<open>onError\<close> calls \<^verbatim>\<open>removeListener\<close> first,
  and the listener is deregistered when the Failure is delivered.
\<close>

lemma onError_removes_listener:
  "\<not> listener (onError ex s) \<and>
   trace (onError ex s) =
     trace s @ [RemoveListener, TrackError ex, LogError (optional_message ex) ex,
                HandleError (Progress_error TRANSACTION_ERROR ex)]"
  by (simp add: onError_unfold)

text \<open>
  Claim C4. The success branch of the signing callback \<^verbatim>\<open>onTransactionHash\<close> logs
  and emits the progress event of the withdraw step, and nothing else. In every run of
  the completion hook, a success record and a finished transfer record in the trace come
  from a withdrawal event that the listener delivered without error: the record's
  \<^verbatim>\<open>l1hash\<close> and the tracked hash are that event's transaction hash.
\<close>

theorem completion_success_only_from_listener:
  "onTransactionHash transfer None txHash s =
     s\<lparr>trace := trace s @
        [Log ''Tx signed'',
         HandleProgress (Progress_withdraw (t_amount transfer) (t_symbol transfer)
           (stepOf WITHDRAW CompleteTransferToL1Steps))]\<rparr> \<and>
   (TrackSuccess h \<in> set (completion_trace env transfer sigs) \<longrightarrow>
      (\<exists>ev. Withdrawal None ev \<in> set sigs \<and> transactionHash ev = h)) \<and>
   (HandleData r \<in> set (completion_trace env transfer sigs) \<longrightarrow>
      (\<exists>ev. Withdrawal None ev \<in> set sigs \<and>
            r = transfer\<lparr>t_l1hash := Some (transactionHash ev)\<rparr>))"
proof (intro conjI impI)
  show "onTransactionHash transfer None txHash s =
     s\<lparr>trace := trace s @
        [Log ''Tx signed'',
         HandleProgress (Progress_withdraw (t_amount transfer) (t_symbol transfer)
           (stepOf WITHDRAW CompleteTransferToL1Steps))]\<rparr>"
    by (simp add: onTransactionHash_unfold)
next
  assume "TrackSuccess h \<in> set (completion_trace env transfer sigs)"
  then show "\<exists>ev. Withdrawal None ev \<in> set sigs \<and> transactionHash ev = h"
    using fold_deliver_success_source [of h transfer sigs "useCompleteTransferToL1 env transfer"]
      start_no_success(1) [of h env transfer]
    by (simp add: completion_trace_def completeTransferToL1_def)
next
  assume "HandleData r \<in> set (completion_trace env transfer sigs)"
  then show "\<exists>ev. Withdrawal None ev \<in> set sigs \<and>
      r = transfer\<lparr>t_l1hash := Some (transactionHash ev)\<rparr>"
    using fold_deliver_data_source [of r transfer sigs "useCompleteTransferToL1 env transfer"]
      start_no_success(2) [of r env transfer]
    by (simp add: completion_trace_def completeTransferToL1_def)
qed

text \<open>Claim C4 at a run that succeeds: its success has the event's hash.\<close>

theorem completion_success_only_from_listener_witness:
  "TrackSuccess ''0xl1'' \<in> set (completion_trace example_env example_transfer
     [TransactionHash None ''0xl1'', Withdrawal None (Event ''0xl1'')]) \<and>
   HandleData (example_transfer\<lparr>t_l1hash := Some ''0xl1''\<rparr>) \<in>
     set (completion_trace example_env example_transfer
       [TransactionHash None ''0xl1'', Withdrawal None (Event ''0xl1'')]) \<and>
   (\<exists>ev. Withdrawal None ev \<in> set [TransactionHash None ''0xl1'', Withdrawal None (Event ''0xl1'')] \<and>
         transactionHash ev = ''0xl1'')"
proof -
  have a: "TrackSuccess ''0xl1'' \<in> set (completion_trace example_env example_transfer
     [TransactionHash None ''0xl1'', Withdrawal None (Event ''0xl1'')])"
    by (simp add: run_simps example_defs)
  have b: "HandleData (example_transfer\<lparr>t_l1hash := Some ''0xl1''\<rparr>) \<in>
     set (completion_trace example_env example_transfer
       [TransactionHash None ''0xl1'', Withdrawal None (Event ''0xl1'')])"
    by (simp add: run_simps example_defs)
  show ?thesis
    using a b
      completion_success_only_from_listener [of example_transfer "''0xl1''" initial_state
        "''0xl1''" example_env "[TransactionHash None ''0xl1'', Withdrawal None (Event ''0xl1'')]"
        "example_transfer\<lparr>t_l1hash := Some ''0xl1''\<rparr>"]
    by blast
qed

text \<open>
  Claim C5. Every run of the completion hook registers the listener, and makes at most
  one chain write: the \<^verbatim>\<open>withdraw\<close> call, made whenever the token resolves. In a run
  that makes it, \<^verbatim>\<open>addListener\<close> was called before it and \<^verbatim>\<open>removeListener\<close> was
  not: the listener is in place when the transaction is submitted.
\<close>

theorem completion_listener_before_submit:
  "AddListener \<in> set (completion_trace env transfer sigs) \<and>
   length (filter is_chain_write (completion_trace env transfer sigs)) \<le> 1 \<and>
   (getL1Token env (t_symbol transfer) = Some tok \<longrightarrow>
      filter is_chain_write (completion_trace env transfer sigs) =
        [CallWithdraw (l1Account env) (getL1TokenBridgeContract env (bridgeAddress tok))
           (t_amount transfer) (decimals tok)]) \<and>
   (list_ex is_chain_write (completion_trace env transfer sigs) \<longrightarrow>
      AddListener \<in> set (takeWhile (\<lambda>e. \<not> is_chain_write e) (completion_trace env transfer sigs)) \<and>
      RemoveListener \<notin> set (takeWhile (\<lambda>e. \<not> is_chain_write e)
        (completion_trace env transfer sigs)))"
proof -
  obtain d where d: "completion_trace env transfer sigs =
      trace (useCompleteTransferToL1 env transfer) @ d" "filter is_chain_write d = []"
    using completion_trace_extends by blast
  have ex: "\<not> list_ex is_chain_write d"
    using d(2) by (simp add: list_ex_iff filter_empty_conv)
  show ?thesis
  proof (cases "getL1Token env (t_symbol transfer)")
    case None
    then show ?thesis
      using d ex by (simp add: useCompleteTransferToL1_unfold)
  next
    case (Some tok')
    then show ?thesis
      using d ex by (simp add: useCompleteTransferToL1_unfold)
  qed
qed

text \<open>Claim C5 at a run that submits the withdrawal.\<close>

theorem completion_listener_before_submit_witness:
  "list_ex is_chain_write (completion_trace example_env example_transfer
     [TransactionHash None ''0xl1'', Withdrawal None (Event ''0xl1'')]) \<and>
   getL1Token example_env (t_symbol example_transfer) = Some example_token \<and>
   filter is_chain_write (completion_trace example_env example_transfer
     [TransactionHash None ''0xl1'', Withdrawal None (Event ''0xl1'')]) =
     [CallWithdraw (l1Account example_env)
        (getL1TokenBridgeContract example_env (bridgeAddress example_token))
        (t_amount example_transfer) (decimals example_token)] \<and>
   AddListener \<in> set (takeWhile (\<lambda>e. \<not> is_chain_write e)
     (completion_trace example_env example_transfer
        [TransactionHash None ''0xl1'', Withdrawal None (Event ''0xl1'')])) \<and>
   RemoveListener \<notin> set (takeWhile (\<lambda>e. \<not> is_chain_write e)
     (completion_trace example_env example_transfer
        [TransactionHash None ''0xl1'', Withdrawal None (Event ''0xl1'')]))"
proof -
  have tok: "getL1Token example_env (t_symbol example_transfer) = Some example_token"
    by (simp add: example_defs)
  have cw: "list_ex is_chain_write (completion_trace example_env example_transfer
     [TransactionHash None ''0xl1'', Withdrawal None (Event ''0xl1'')])"
    by (simp add: run_simps example_defs)
  show ?thesis
    using tok cw
      completion_listener_before_submit [of example_env example_transfer
        "[TransactionHash None ''0xl1'', Withdrawal None (Event ''0xl1'')]" example_token]
    by simp
qed

section \<open>Claims about the initiation hook\<close>

text \<open>
  What the claims C6 and C10 say holds when a step rejects with an object: the hook
  returns normally, the only tracked result is one \<^verbatim>\<open>trackError\<close> with the cause, and
  the only outcome is Failure(TRANSACTION_ERROR, cause).
\<close>

lemma transferToL1_object_rejection_caught:
  "selectedToken env = Some tok \<Longrightarrow>
   initiateWithdraw_promise env tok amount = Rejects (JsObject err) \<or>
   (initiateWithdraw_promise env tok amount = Resolves l2hash \<and>
    waitForTransaction env l2hash RECEIVED = Rejects (JsObject err)) \<Longrightarrow>
   snd (useTransferToL1 env amount) = Returned () \<and>
   tracked_results (fst (useTransferToL1 env amount)) = [TrackError (JsObject err)] \<and>
   outcomes (fst (useTransferToL1 env amount)) =
     [Failure TRANSACTION_ERROR (JsObject err)]"
  by (auto simp add: useTransferToL1_unfold Let_def tracked_results_def outcomes_def
      List.map_filter_def split: promise.splits)

text \<open>
  When the submission rejects with \<^verbatim>\<open>undefined\<close> or \<^verbatim>\<open>null\<close>, the
  \<^verbatim>\<open>catch\<close> block throws at \<^verbatim>\<open>ex.message\<close>: the hook rejects to its caller with a
  \<^verbatim>\<open>TypeError\<close>, and has recorded neither an error nor a Failure.
\<close>

lemma transferToL1_nullish_rejection_rethrown:
  "selectedToken env = Some tok \<Longrightarrow> ex = JsUndefined \<or> ex = JsNull \<Longrightarrow>
   initiateWithdraw_promise env tok amount = Rejects ex \<Longrightarrow>
   snd (useTransferToL1 env amount) = Thrown (JsObject TypeError_read_property) \<and>
   tracked_results (fst (useTransferToL1 env amount)) = [] \<and>
   outcomes (fst (useTransferToL1 env amount)) = []"
  by (auto simp add: useTransferToL1_unfold Let_def tracked_results_def outcomes_def
      List.map_filter_def)

text \<open>
  Claim C6 at a submission that rejects with \<^verbatim>\<open>undefined\<close>. The claim says that the
  rejection is caught, recorded once by \<^verbatim>\<open>trackError\<close>, turned into a Failure and
  never thrown to the caller. The hook has made its chain write, then throws a
  \<^verbatim>\<open>TypeError\<close> to its caller from inside the \<^verbatim>\<open>catch\<close> block, with no error
  recorded and no outcome delivered.
\<close>

theorem transferToL1_undefined_rejection_reaches_caller:
  "useTransferToL1 example_undefined_rejection_env 5 =
     ([Log ''TransferToL1 called'',
       HandleProgress (Progress_waitForConfirm ''SN_MAIN'' 0),
       Log ''Calling initiate withdraw'',
       TrackInitiated (Initiated_TransferToL1 (Some ''0xa2'') (Some ''0xa1'') 5 ''ETH''),
       CallInitiateWithdraw (Some ''0xa1'') (Contract ''0xb1'') 5 18],
      Thrown (JsObject TypeError_read_property)) \<and>
   tracked_results (fst (useTransferToL1 example_undefined_rejection_env 5)) = [] \<and>
   outcomes (fst (useTransferToL1 example_undefined_rejection_env 5)) = []"
  by (simp add: useTransferToL1_unfold initiateWithdraw_promise_def example_defs
      tracked_results_def outcomes_def List.map_filter_def)

text \<open>
  Claim C7. A run of the initiation hook that ends in Success has a selected token and
  has emitted exactly two progress events, in this order: wait-for-confirm with the step
  number of \<open>CONFIRM_TX\<close>, then initiate-withdraw with the step number of
  \<open>INITIATE_WITHDRAW\<close>. Their step numbers are those of the steps of
  \<open>TransferToL1Steps\<close>, each once and in the order of the list, and they increase
  strictly.
\<close>

theorem transferToL1_progress_in_step_order:
  "outcomes (fst (useTransferToL1 env amount)) = [Success r] \<Longrightarrow>
   (\<exists>tok. selectedToken env = Some tok \<and>
      filter is_progress (fst (useTransferToL1 env amount)) =
        [HandleProgress (Progress_waitForConfirm (l2Config_name env)
           (stepOf CONFIRM_TX TransferToL1Steps)),
         HandleProgress (Progress_initiateWithdraw amount (symbol tok)
           (stepOf INITIATE_WITHDRAW TransferToL1Steps))]) \<and>
   progress_steps (fst (useTransferToL1 env amount)) =
     map (\<lambda>step. stepOf step TransferToL1Steps) TransferToL1Steps \<and>
   sorted_wrt (<) (progress_steps (fst (useTransferToL1 env amount))) \<and>
   distinct (progress_steps (fst (useTransferToL1 env amount)))"
  by (auto simp add: useTransferToL1_unfold Let_def progress_steps_def outcomes_def
      List.map_filter_def TransferToL1Steps_def stepOf_def
      split: option.splits promise.splits js_value.splits)

text \<open>Claim C7 at a run that succeeds with hash "0xabc".\<close>

theorem transferToL1_progress_in_step_order_witness:
  "outcomes (fst (useTransferToL1 example_env 5)) =
     [Success \<lparr>t_type = TRANSFER_TO_L1, t_sender = Some ''0xa2'', t_recipient = Some ''0xa1'',
        t_name = ''Ether'', t_symbol = ''ETH'', t_amount = 5, t_l2hash = ''0xabc'',
        t_l1hash = None\<rparr>] \<and>
   filter is_progress (fst (useTransferToL1 example_env 5)) =
     [HandleProgress (Progress_waitForConfirm ''SN_MAIN'' 0),
      HandleProgress (Progress_initiateWithdraw 5 ''ETH'' 1)] \<and>
   progress_steps (fst (useTransferToL1 example_env 5)) = [0, 1]"
proof -
  have ok: "outcomes (fst (useTransferToL1 example_env 5)) =
     [Success \<lparr>t_type = TRANSFER_TO_L1, t_sender = Some ''0xa2'', t_recipient = Some ''0xa1'',
        t_name = ''Ether'', t_symbol = ''ETH'', t_amount = 5, t_l2hash = ''0xabc'',
        t_l1hash = None\<rparr>]"
    by (simp add: useTransferToL1_unfold initiateWithdraw_promise_def example_defs
        outcomes_def List.map_filter_def)
  have steps: "map (\<lambda>step. stepOf step TransferToL1Steps) TransferToL1Steps = [0, 1]"
    by (simp add: TransferToL1Steps_def stepOf_def)
  have env: "l2Config_name example_env = ''SN_MAIN''"
    "selectedToken example_env = Some example_token" "symbol example_token = ''ETH''"
    by (simp_all add: example_defs)
  show ?thesis
    using ok transferToL1_progress_in_step_order [OF ok] steps env by auto
qed




section \<open>Claims about both hooks\<close>




section \<open>Claims about decimal scaling\<close>

text \<open>
  Claim C9. With the decimals argument omitted, \<^verbatim>\<open>toDecimals(v)\<close> is
  \<^verbatim>\<open>v * Math.pow(10, 18)\<close> and \<^verbatim>\<open>fromDecimals(v)\<close> is \<^verbatim>\<open>v / Math.pow(10, 18)\<close>,
  whatever the arithmetic of numbers is.
\<close>

theorem decimals_default_18:
  "toDecimals ops v None =
     num_times ops v (Math_pow ops (num_literal ops 10) (num_literal ops 18)) \<and>
   fromDecimals ops v None =
     num_divide ops v (Math_pow ops (num_literal ops 10) (num_literal ops 18))"
  by (simp add: toDecimals_def fromDecimals_def powerOf_def default_arg_def TEN_BASE_def
      DEFAULT_DECIMALS_def)

subsection \<open>The rounding\<close>

text \<open>The exponent that \<open>expo\<close> computes is the binary exponent.\<close>

lemma pow_nat_powi: "0 \<le> n \<Longrightarrow> (2::rat) ^ nat n = 2 powi n"
  by (simp add: power_int_def)

lemma expo_bounds:
  assumes "x \<noteq> 0"
  shows "2 powi (expo x) \<le> \<bar>x\<bar> \<and> \<bar>x\<bar> < 2 powi (expo x + 1)"
proof -
  obtain p q where pq: "quotient_of \<bar>x\<bar> = (p, q)" by (cases "quotient_of \<bar>x\<bar>")
  then have q: "0 < q" by (rule quotient_of_denom_pos)
  have x: "\<bar>x\<bar> = of_int p / of_int q" using pq by (rule quotient_of_div)
  have "0 < \<bar>x\<bar>" using assms by simp
  then have p: "0 < p" using x q by (simp add: zero_less_divide_iff)
  let ?bp = "bitlen p" and ?bq = "bitlen q"
  have bp1: "1 \<le> ?bp" and bq1: "1 \<le> ?bq"
    using p q bitlen_eq_zero_iff [of p] bitlen_eq_zero_iff [of q] bitlen_nonneg [of p]
      bitlen_nonneg [of q] by linarith+
  have P: "(2::rat) powi (?bp - 1) \<le> of_int p" "of_int p < (2::rat) powi ?bp"
  proof -
    from bitlen_bounds [OF p] have "2 ^ nat (?bp - 1) \<le> p" "p < 2 ^ nat ?bp" by simp_all
    then have "(of_int (2 ^ nat (?bp - 1)) :: rat) \<le> of_int p" "(of_int p :: rat) < of_int (2 ^ nat ?bp)"
      by (simp_all only: of_int_le_iff of_int_less_iff)
    then show "(2::rat) powi (?bp - 1) \<le> of_int p" "of_int p < (2::rat) powi ?bp"
      using bp1 by (simp_all add: pow_nat_powi)
  qed
  have Q: "(2::rat) powi (?bq - 1) \<le> of_int q" "of_int q < (2::rat) powi ?bq"
  proof -
    from bitlen_bounds [OF q] have "2 ^ nat (?bq - 1) \<le> q" "q < 2 ^ nat ?bq" by simp_all
    then have "(of_int (2 ^ nat (?bq - 1)) :: rat) \<le> of_int q" "(of_int q :: rat) < of_int (2 ^ nat ?bq)"
      by (simp_all only: of_int_le_iff of_int_less_iff)
    then show "(2::rat) powi (?bq - 1) \<le> of_int q" "of_int q < (2::rat) powi ?bq"
      using bq1 by (simp_all add: pow_nat_powi)
  qed
  let ?k = "?bp - ?bq"
  have qpos: "(0::rat) < of_int q" using q by simp
  have up: "\<bar>x\<bar> < 2 powi (?k + 1)"
  proof -
    have "of_int p < (2::rat) powi ?bp" by (rule P)
    also have "\<dots> = 2 powi (?k + 1) * 2 powi (?bq - 1)"
      by (simp add: power_int_add [symmetric])
    also have "\<dots> \<le> 2 powi (?k + 1) * of_int q"
      using Q(1) by (intro mult_left_mono) simp_all
    finally show ?thesis using qpos by (simp add: x pos_divide_less_eq)
  qed
  have low: "2 powi (?k - 1) \<le> \<bar>x\<bar>"
  proof -
    have "(2::rat) powi (?k - 1) * of_int q \<le> 2 powi (?k - 1) * 2 powi ?bq"
      using Q(2) by (intro mult_left_mono) simp_all
    also have "\<dots> = 2 powi (?bp - 1)"
      by (simp add: power_int_add [symmetric])
    also have "\<dots> \<le> of_int p" by (rule P)
    finally show ?thesis using qpos by (simp add: x pos_le_divide_eq)
  qed
  show ?thesis
    using up low by (simp add: expo_def pq Let_def)
qed

text \<open>Rounding to an integer moves a number by at most one half.\<close>

lemma round_half_even_nearest:
  "\<bar>of_int (round_half_even m) - m\<bar> \<le> 1 / 2"
proof -
  have "of_int \<lfloor>m\<rfloor> \<le> m" "m < of_int \<lfloor>m\<rfloor> + 1"
    by linarith+
  then show ?thesis
    by (auto simp add: round_half_even_def Let_def abs_le_iff)
qed

subsection \<open>The round trip in binary64\<close>

lemma binary64_ops [simp]:
  "num_times binary64 = binary64_times"
  "num_divide binary64 = binary64_divide"
  "Math_pow binary64 = binary64_pow"
  by (simp_all add: binary64_def)

lemma binary64_literal:
  "num_literal binary64 n = round64 (of_nat n)"
  by (simp add: binary64_def)

lemma round64_small_numbers:
  "d \<le> 18 \<Longrightarrow> round64 (of_nat d) = Some (of_nat d)"
proof -
  have "\<forall>n \<in> set [0..<19]. round64 (of_nat n) = Some (of_nat n)"
    by code_simp
  moreover assume "d \<le> 18"
  ultimately show ?thesis by simp
qed

lemma round64_powers_of_ten:
  "d \<le> 18 \<Longrightarrow> round64 (10 ^ d) = Some (10 ^ d)"
proof -
  have "\<forall>n \<in> set [0..<19]. round64 (10 ^ n) = Some (10 ^ n)"
    by code_simp
  moreover assume "d \<le> 18"
  ultimately show ?thesis by simp
qed

lemma round64_ten: "round64 10 = Some 10"
  by code_simp

lemma powerOf_binary64:
  "d \<le> 18 \<Longrightarrow> powerOf binary64 (num_literal binary64 d) = Some (10 ^ d)"
  using round64_ten
  by (simp add: powerOf_def TEN_BASE_def binary64_pow_def binary64_literal
      round64_small_numbers round64_powers_of_ten)




end
